theory Spec2Isabelle
  imports Complex_Main
begin

section \<open>Data model\<close>

text \<open>
  Arrays are modelled by their shape and their flattened contents. A batched array of
  shape \<open>(n, *s)\<close> is a list of \<open>n\<close> arrays of shape \<open>s\<close>: the leading axis is the
  list. Floating-point numbers are modelled by \<open>real\<close>; rounding is not modelled.
\<close>

record ndarray =
  shape :: "nat list"
  contents :: "real list"

text \<open>\<^verbatim>\<open>jnp.zeros(shape, dtype=jnp.float32)\<close>\<close>

definition zeros :: "nat list \<Rightarrow> ndarray" where
  "zeros s = \<lparr>shape = s, contents = replicate (prod_list s) 0\<rparr>"

text \<open>\<^verbatim>\<open>dm_env.TimeStep\<close> and its \<^verbatim>\<open>last()\<close> method.\<close>

datatype StepType = FIRST | MID | LAST

record TimeStep =
  step_type :: StepType
  reward :: real
  discount :: real
  observation :: ndarray

definition last_step :: "TimeStep \<Rightarrow> bool" where
  "last_step ts = (step_type ts = LAST)"

text \<open>\<^verbatim>\<open>sequence.Trajectory\<close>: parallel arrays, the leading (time) axis as a list.\<close>

record Trajectory =
  observations :: "ndarray list"
  actions :: "int list"
  rewards :: "real list"
  discounts :: "real list"

text \<open>
  What the program raises. \<open>BufferFull\<close> is the failure of an append to a full
  buffer; \<open>TypeError\<close> is what \<^verbatim>\<open>int\<close> raises on an array that is not a scalar;
  \<open>AttributeError\<close> is what \<^verbatim>\<open>getattr\<close> raises on a missing attribute;
  \<open>ExternalError\<close> is any failure of an environment loader.
\<close>

datatype error =
    ValueError string
  | TypeError
  | AttributeError
  | BufferFull
  | ExternalError

section \<open>The trajectory buffer\<close>

text \<open>
  Modelled from the spec: the class \<^verbatim>\<open>sequence.Buffer\<close>
  (\<^verbatim>\<open>bsuite/baselines/utils/sequence.py\<close>) is not among the sources. The model
  follows the specification's words: a write cursor into preallocated arrays of fixed
  size (\<open>capacity + 1\<close> observations, \<open>capacity\<close> actions, rewards and discounts);
  \<^verbatim>\<open>append\<close> records one transition at the cursor and fails on a full buffer,
  \<^verbatim>\<open>full\<close> holds when the cursor has reached the capacity, and \<^verbatim>\<open>drain\<close>
  returns the accumulated trajectory, resets the cursor and carries the most recent
  observation forward as the first observation of the next segment.
\<close>

record Buffer =
  capacity :: nat
  cursor :: nat
  obs_arr :: "ndarray list"
  act_arr :: "int list"
  rew_arr :: "real list"
  disc_arr :: "real list"

text \<open>Modelled from the spec: the constructor of the missing class, which preallocates
  the arrays for the declared capacity with the cursor at zero.\<close>

definition Buffer_init :: "nat list \<Rightarrow> nat \<Rightarrow> Buffer" where
  "Buffer_init obs_shape max_sequence_length =
     \<lparr>capacity = max_sequence_length,
      cursor = 0,
      obs_arr = replicate (max_sequence_length + 1) (zeros obs_shape),
      act_arr = replicate max_sequence_length 0,
      rew_arr = replicate max_sequence_length 0,
      disc_arr = replicate max_sequence_length 0\<rparr>"

text \<open>Modelled from the spec: \<^verbatim>\<open>full()\<close> of the missing class, true when the cursor
  has reached the declared capacity.\<close>

definition Buffer_full :: "Buffer \<Rightarrow> bool" where
  "Buffer_full b = (cursor b = capacity b)"

text \<open>Modelled from the spec: \<^verbatim>\<open>append\<close> of the missing class. It fails when the
  buffer is already full; otherwise it records the transition (the observation before
  the step, the action, and the observation, reward and discount after the step) at
  the cursor and advances the cursor by one.\<close>

definition Buffer_append :: "Buffer \<Rightarrow> TimeStep \<Rightarrow> int \<Rightarrow> TimeStep \<Rightarrow> error + Buffer" where
  "Buffer_append b timestep action new_timestep =
     (if Buffer_full b then Inl BufferFull
      else
        (let t = cursor b in
         Inr (b\<lparr>obs_arr := (obs_arr b)[t := observation timestep,
                                       t + 1 := observation new_timestep],
                 act_arr := (act_arr b)[t := action],
                 rew_arr := (rew_arr b)[t := reward new_timestep],
                 disc_arr := (disc_arr b)[t := discount new_timestep],
                 cursor := t + 1\<rparr>)))"

text \<open>Modelled from the spec: \<^verbatim>\<open>drain\<close> of the missing class. It returns the
  accumulated trajectory (\<open>cursor + 1\<close> observations, \<open>cursor\<close> actions, rewards and
  discounts), resets the cursor to zero and carries the most recent observation forward
  as the first observation of the next segment, full or not. The read at the cursor is
  in range on every buffer of the shape \<open>Buffer_ok\<close> below.\<close>

definition Buffer_drain :: "Buffer \<Rightarrow> Trajectory \<times> Buffer" where
  "Buffer_drain b =
     (let t = cursor b;
          trajectory = \<lparr>observations = take (t + 1) (obs_arr b),
                        actions = take t (act_arr b),
                        rewards = take t (rew_arr b),
                        discounts = take t (disc_arr b)\<rparr>
      in (trajectory, b\<lparr>obs_arr := (obs_arr b)[0 := obs_arr b ! t], cursor := 0\<rparr>))"

text \<open>The shape of a buffer built by \<open>Buffer_init\<close> and kept by its operations.\<close>

definition Buffer_ok :: "Buffer \<Rightarrow> bool" where
  "Buffer_ok b =
     (cursor b \<le> capacity b \<and>
      length (obs_arr b) = capacity b + 1 \<and>
      length (act_arr b) = capacity b \<and>
      length (rew_arr b) = capacity b \<and>
      length (disc_arr b) = capacity b)"

section \<open>The actor-critic agent\<close>

text \<open>
  The numerical libraries the agent is built on (Haiku, JAX, Optax, RLax) are not part
  of the repository. Their functions are parameters of the model, collected in one
  record: the transformed network (\<^verbatim>\<open>hk.transform(network)\<close>: \<open>init\<close> and
  \<open>apply\<close>), the optimizer, \<^verbatim>\<open>jax.grad\<close>, \<^verbatim>\<open>optax.apply_updates\<close>,
  \<^verbatim>\<open>rlax.td_lambda\<close>, \<^verbatim>\<open>rlax.policy_gradient_loss\<close>,
  \<^verbatim>\<open>jax.random.categorical\<close> and \<^verbatim>\<open>next\<close> on a \<^verbatim>\<open>hk.PRNGSequence\<close>.
  \<open>'p\<close> is the type of parameter trees (gradients and updates have the same
  structure), \<open>'s\<close> the optimizer state, \<open>'k\<close> a random key and \<open>'r\<close> the state of
  the random sequence. Logits are a list of rows, one per batch entry.
\<close>

record ('p, 's) TrainingState =
  params :: 'p
  opt_state :: 's

record ('p, 's, 'k, 'r) libs =
  hk_init :: "'k \<Rightarrow> ndarray list \<Rightarrow> 'p"
  hk_apply :: "'p \<Rightarrow> ndarray list \<Rightarrow> real list list \<times> real list"
  optimizer_init :: "'p \<Rightarrow> 's"
  optimizer_update :: "'p \<Rightarrow> 's \<Rightarrow> 'p \<times> 's"
  optax_apply_updates :: "'p \<Rightarrow> 'p \<Rightarrow> 'p"
  jax_grad :: "('p \<Rightarrow> Trajectory \<Rightarrow> real option) \<Rightarrow> 'p \<Rightarrow> Trajectory \<Rightarrow> 'p"
  rlax_td_lambda :: "real list \<Rightarrow> real list \<Rightarrow> real list \<Rightarrow> real list \<Rightarrow> real \<Rightarrow> real list"
  rlax_policy_gradient_loss :: "real list list \<Rightarrow> int list \<Rightarrow> real list \<Rightarrow> real list \<Rightarrow> real"
  jax_random_categorical :: "'k \<Rightarrow> real list list \<Rightarrow> int list"
  rng_next :: "'r \<Rightarrow> 'k \<times> 'r"

text \<open>
  \<^verbatim>\<open>jnp.mean\<close> over a one-dimensional array. The mean of an empty array is NaN
  (\<open>0 / 0\<close>), which is the value \<open>None\<close> here and not HOL's \<open>0 / 0 = 0\<close>.
\<close>

definition jnp_mean :: "real list \<Rightarrow> real option" where
  "jnp_mean xs = (if xs = [] then None else Some (sum_list xs / real (length xs)))"

text \<open>
  The closure \<^verbatim>\<open>loss\<close> of \<^verbatim>\<open>ActorCritic.__init__\<close>, as the pure function
  \<^verbatim>\<open>loss_fn\<close> of the parameters and the trajectory that \<^verbatim>\<open>hk.transform\<close> makes
  of it. A NaN critic loss makes the sum NaN.
\<close>

definition loss ::
  "('p, 's, 'k, 'r) libs \<Rightarrow> real \<Rightarrow> real \<Rightarrow> 'p \<Rightarrow> Trajectory \<Rightarrow> real option" where
  "loss lib discount_factor td_lambda ps trajectory =
     (let (logits, vals) = hk_apply lib ps (observations trajectory);
          td_errors = rlax_td_lambda lib
                        (butlast vals)
                        (rewards trajectory)
                        (map (\<lambda>d. d * discount_factor) (discounts trajectory))
                        (tl vals)
                        td_lambda;
          critic_loss = jnp_mean (map (\<lambda>e. e ^ 2) td_errors);
          actor_loss = rlax_policy_gradient_loss lib
                         (butlast logits)
                         (actions trajectory)
                         td_errors
                         (replicate (length td_errors) 1)
      in map_option (\<lambda>c. actor_loss + c) critic_loss)"

text \<open>The closure \<^verbatim>\<open>sgd_step\<close>: one step of SGD over a trajectory.\<close>

definition sgd_step ::
  "('p, 's, 'k, 'r) libs \<Rightarrow> real \<Rightarrow> real \<Rightarrow> ('p, 's) TrainingState \<Rightarrow> Trajectory
     \<Rightarrow> ('p, 's) TrainingState" where
  "sgd_step lib discount_factor td_lambda st trajectory =
     (let gradients = jax_grad lib (loss lib discount_factor td_lambda) (params st) trajectory;
          (updates, new_opt_state) = optimizer_update lib gradients (opt_state st);
          new_params = optax_apply_updates lib (params st) updates
      in \<lparr>params = new_params, opt_state = new_opt_state\<rparr>)"

text \<open>
  The agent object. \<open>calls\<close> is not a field of the source: it is the log of the calls
  the agent has made to its collaborators (the buffer, the SGD step, the random
  sequence, the network), in order, so that the number of learning steps, of
  initialisations and of random draws can be stated.
\<close>

datatype call =
    RngNext
  | NetInit
  | OptInit
  | Forward
  | Categorical
  | BufferAppend
  | BufferDrain
  | SgdStep

record ('p, 's, 'r) ActorCritic =
  state :: "('p, 's) TrainingState"
  forward :: "'p \<Rightarrow> ndarray list \<Rightarrow> real list list \<times> real list"
  buffer :: Buffer
  sgd_step_fn :: "('p, 's) TrainingState \<Rightarrow> Trajectory \<Rightarrow> ('p, 's) TrainingState"
  rng :: 'r
  calls :: "call list"

text \<open>\<^verbatim>\<open>ActorCritic.__init__\<close>. The sequence \<open>rng\<close> is shared with the caller and
  advanced by the one \<^verbatim>\<open>next(rng)\<close>; the agent keeps the advanced sequence. The
  sequence length is the capacity of the buffer, a natural number. The source's
  \<^verbatim>\<open>discount\<close> is \<open>discount_factor\<close> here, \<open>discount\<close> being the field of a timestep.\<close>

definition ActorCritic_init ::
  "('p, 's, 'k, 'r) libs \<Rightarrow> nat list \<Rightarrow> 'r \<Rightarrow> nat \<Rightarrow> real \<Rightarrow> real \<Rightarrow> ('p, 's, 'r) ActorCritic" where
  "ActorCritic_init lib obs_shape rng0 sequence_length discount_factor td_lambda =
     (let dummy_observation = [zeros obs_shape];
          (key, rng1) = rng_next lib rng0;
          initial_params = hk_init lib key dummy_observation;
          initial_opt_state = optimizer_init lib initial_params
      in \<lparr>state = \<lparr>params = initial_params, opt_state = initial_opt_state\<rparr>,
          forward = hk_apply lib,
          buffer = Buffer_init obs_shape sequence_length,
          sgd_step_fn = sgd_step lib discount_factor td_lambda,
          rng = rng1,
          calls = [RngNext, NetInit, OptInit]\<rparr>)"

text \<open>
  \<^verbatim>\<open>ActorCritic.select_action\<close>. \<^verbatim>\<open>timestep.observation[None, ...]\<close> is the
  batch of one observation. \<^verbatim>\<open>int(action)\<close> raises unless the squeezed sample is a
  scalar, that is, unless one index was drawn; the random sequence has advanced by
  then, so the agent after the call is returned beside the result.
\<close>

definition select_action ::
  "('p, 's, 'k, 'r) libs \<Rightarrow> ('p, 's, 'r) ActorCritic \<Rightarrow> TimeStep
     \<Rightarrow> (error + int) \<times> ('p, 's, 'r) ActorCritic" where
  "select_action lib self timestep =
     (let (key, rng1) = rng_next lib (rng self);
          obs = [observation timestep];
          (logits, _) = forward self (params (state self)) obs;
          action = jax_random_categorical lib key logits;
          self1 = self\<lparr>rng := rng1, calls := calls self @ [RngNext, Forward, Categorical]\<rparr>
      in (case action of [a] \<Rightarrow> (Inr a, self1) | _ \<Rightarrow> (Inl TypeError, self1)))"

text \<open>
  \<^verbatim>\<open>ActorCritic.update\<close>. The append is the first statement: when it raises, the
  agent is as before the call.
\<close>

definition update ::
  "('p, 's, 'r) ActorCritic \<Rightarrow> TimeStep \<Rightarrow> int \<Rightarrow> TimeStep \<Rightarrow> error + ('p, 's, 'r) ActorCritic" where
  "update self timestep action new_timestep =
     (case Buffer_append (buffer self) timestep action new_timestep of
        Inl e \<Rightarrow> Inl e
      | Inr b \<Rightarrow>
          (let self1 = self\<lparr>buffer := b, calls := calls self @ [BufferAppend]\<rparr> in
           if Buffer_full b \<or> last_step new_timestep then
             (let (trajectory, b') = Buffer_drain b;
                  self2 = self1\<lparr>buffer := b', calls := calls self1 @ [BufferDrain]\<rparr>
              in Inr (self2\<lparr>state := sgd_step_fn self2 (state self2) trajectory,
                           calls := calls self2 @ [SgdStep]\<rparr>))
           else Inr self1))"

text \<open>A run of \<^verbatim>\<open>select_action\<close> calls, one per timestep, on the same agent object.\<close>

fun select_actions ::
  "('p, 's, 'k, 'r) libs \<Rightarrow> ('p, 's, 'r) ActorCritic \<Rightarrow> TimeStep list
     \<Rightarrow> (error + int) list \<times> ('p, 's, 'r) ActorCritic" where
  "select_actions lib self [] = ([], self)"
| "select_actions lib self (timestep # rest) =
     (let (a, self1) = select_action lib self timestep;
          (as, self2) = select_actions lib self1 rest
      in (a # as, self2))"

text \<open>The number of learning steps in a log of calls.\<close>

definition learning_steps :: "call list \<Rightarrow> nat" where
  "learning_steps cs = length (filter (\<lambda>c. c = SgdStep) cs)"

text \<open>\<^verbatim>\<open>default_agent\<close>: the agent with the default hyperparameters. \<open>rng0\<close> is
  \<^verbatim>\<open>hk.PRNGSequence(seed)\<close>; the network and \<^verbatim>\<open>optax.adam(3e-3)\<close> are in \<open>lib\<close>.\<close>

definition default_agent ::
  "('p, 's, 'k, 'r) libs \<Rightarrow> nat list \<Rightarrow> 'r \<Rightarrow> ('p, 's, 'r) ActorCritic" where
  "default_agent lib obs_shape rng0 = ActorCritic_init lib obs_shape rng0 32 (99 / 100) (9 / 10)"

section \<open>The sweep registry\<close>

text \<open>
  Python values the driver and the logger pass around: a tuple of identifiers (a
  sweep), a string, an integer, \<^verbatim>\<open>None\<close>, or some other object.
\<close>

datatype pyval =
    TupleVal "string list"
  | StrVal string
  | IntVal int
  | NoneVal
  | ObjectVal

text \<open>
  Modelled from the spec: the module \<^verbatim>\<open>bsuite/sweep.py\<close> is not among the sources.
  The model keeps the two attributes the sources read, \<^verbatim>\<open>sweep.SWEEP\<close> (the tuple
  of the registered experiment identifiers, \<^verbatim>\<open>run.py\<close>) and \<^verbatim>\<open>sweep.SEPARATOR\<close>
  (the reserved separator, a string, \<^verbatim>\<open>wandb_logging.py\<close>), and a map for every
  other attribute of the module (the named sweeps among them).
\<close>

record sweep_module =
  SWEEP :: "string list"
  SEPARATOR :: string
  attributes :: "string \<rightharpoonup> pyval"

text \<open>\<^verbatim>\<open>getattr(sweep, name)\<close>, \<open>None\<close> when the module has no such attribute, and
  \<^verbatim>\<open>hasattr(sweep, name)\<close>.\<close>

definition getattr_sweep :: "sweep_module \<Rightarrow> string \<Rightarrow> pyval option" where
  "getattr_sweep m name =
     (if name = ''SWEEP'' then Some (TupleVal (SWEEP m))
      else if name = ''SEPARATOR'' then Some (StrVal (SEPARATOR m))
      else attributes m name)"

definition hasattr_sweep :: "sweep_module \<Rightarrow> string \<Rightarrow> bool" where
  "hasattr_sweep m name = (getattr_sweep m name \<noteq> None)"

text \<open>A registered sweep is an attribute of the module whose value is a tuple of
  experiment identifiers.\<close>

definition registered_sweep :: "sweep_module \<Rightarrow> string \<Rightarrow> bool" where
  "registered_sweep m name =
     (case getattr_sweep m name of Some (TupleVal ids) \<Rightarrow> True | _ \<Rightarrow> False)"

section \<open>The Weights and Biases logger\<close>

text \<open>
  Python's \<^verbatim>\<open>str.replace(old, new)\<close>: every occurrence of \<open>old\<close>, found from left to
  right without overlap, is replaced; an empty \<open>old\<close> matches before every character and
  at the end.
\<close>

function replace_scan :: "string \<Rightarrow> string \<Rightarrow> string \<Rightarrow> string" where
  "replace_scan old new s =
     (if s = [] then []
      else if old \<noteq> [] \<and> take (length old) s = old
        then new @ replace_scan old new (drop (length old) s)
      else hd s # replace_scan old new (tl s))"
  by pat_completeness auto
termination
  by (relation "measure (\<lambda>(old, new, s). length s)") auto

declare replace_scan.simps [simp del]

definition str_replace :: "string \<Rightarrow> string \<Rightarrow> string \<Rightarrow> string" where
  "str_replace s old new =
     (if old = [] then new @ concat (map (\<lambda>c. c # new) s) else replace_scan old new s)"

definition SAFE_SEPARATOR :: string where
  "SAFE_SEPARATOR = ''-''"

definition INITIAL_SEPARATOR :: string where
  "INITIAL_SEPARATOR = ''_-_''"

definition BSUITE_PREFIX :: string where
  "BSUITE_PREFIX = ''bsuite_id'' @ INITIAL_SEPARATOR"

text \<open>The calls the logger makes to the \<^verbatim>\<open>wandb\<close> client, with the keyword arguments
  of \<^verbatim>\<open>wandb.init\<close> as the source passes them.\<close>

record wandb_init_args =
  project :: string
  entity :: string
  group :: string
  config :: "(string \<times> pyval) list option"
  tags :: "string list option"
  reinit :: bool

datatype 'd wandb_call =
    WandbInit wandb_init_args
  | WandbLog 'd

text \<open>The local \<^verbatim>\<open>experiment_name\<close> of \<^verbatim>\<open>WandbLogger.__init__\<close>.\<close>

definition experiment_name :: "sweep_module \<Rightarrow> string \<Rightarrow> string" where
  "experiment_name sweep bsuite_id =
     (let safe_bsuite_id = str_replace bsuite_id (SEPARATOR sweep) SAFE_SEPARATOR
      in BSUITE_PREFIX @ safe_bsuite_id)"

text \<open>\<^verbatim>\<open>WandbLogger.__init__\<close>: the calls it makes to the client. The name is
  computed and then not used.\<close>

definition WandbLogger_init ::
  "sweep_module \<Rightarrow> string \<Rightarrow> string \<Rightarrow> string \<Rightarrow> string \<Rightarrow> (string \<times> pyval) list option
     \<Rightarrow> string list option \<Rightarrow> bool \<Rightarrow> 'd wandb_call list" where
  "WandbLogger_init sweep bsuite_id project_name project_entity project_group
       project_config project_tags overwrite =
     (let name = experiment_name sweep bsuite_id
      in [WandbInit \<lparr>project = project_name, entity = project_entity, group = project_group,
                     config = project_config, tags = project_tags, reinit = overwrite\<rparr>])"

text \<open>\<^verbatim>\<open>WandbLogger.write\<close>\<close>

definition WandbLogger_write :: "'d \<Rightarrow> 'd wandb_call list" where
  "WandbLogger_write d = [WandbLog d]"

section \<open>The experiment driver\<close>

record FLAGS =
  bsuite_id :: string
  save_path :: string
  logging_mode :: string
  overwrite :: bool
  num_episodes :: "int option"
  verbose :: bool
  max_episode_length :: int
  project_name :: string
  project_entity :: string
  project_group :: string
  project_tags :: "string list option"

text \<open>
  The environment loaders of \<^verbatim>\<open>bsuite\<close>, the attribute \<^verbatim>\<open>bsuite_num_episodes\<close>
  of an environment (\<open>None\<close>: the environment has no such attribute) and the outcome
  of \<^verbatim>\<open>pool.map_mpi(run, ...)\<close> on the value it is given are parameters of the
  driver. \<open>'env\<close> is the type of environments.
\<close>

record 'env bsuite_api =
  load_and_record :: "string \<Rightarrow> string \<Rightarrow> string \<Rightarrow> bool \<Rightarrow> error + 'env"
  load_and_record_to_wandb ::
    "string \<Rightarrow> int \<Rightarrow> string \<Rightarrow> string \<Rightarrow> string \<Rightarrow> (string \<times> pyval) list
       \<Rightarrow> string list option \<Rightarrow> bool \<Rightarrow> error + 'env"
  bsuite_num_episodes :: "'env \<Rightarrow> int option"
  map_mpi :: "pyval \<Rightarrow> error + unit"

text \<open>
  What the driver does, in order: the lines it prints, the environments it loads, the
  agents it builds (\<^verbatim>\<open>default_agent\<close> on the environment's specs), the experiments
  it runs (environment, number of episodes, verbosity) and the pools it starts.
\<close>

datatype 'env driver_event =
    PrintSingle string
      \<comment> \<open>the line \<^verbatim>\<open>Running single experiment: bsuite_id=...\<close> for an identifier\<close>
  | PrintSweep pyval
      \<comment> \<open>the line \<^verbatim>\<open>Running sweep over bsuite_id in sweep...\<close> for an attribute's value\<close>
  | LoadedEnvironment 'env
  | BuiltAgent 'env
  | ExperimentRun 'env int bool
  | MapMpi pyval

text \<open>\<^verbatim>\<open>FLAGS.num_episodes or getattr(env, 'bsuite_num_episodes')\<close>: the attribute is
  read only when the flag is \<^verbatim>\<open>None\<close> or \<open>0\<close>.\<close>

definition num_episodes_or :: "int option \<Rightarrow> int option \<Rightarrow> error + int" where
  "num_episodes_or flag attr =
     (case flag of
        Some n \<Rightarrow> if n \<noteq> 0 then Inr n
                 else (case attr of None \<Rightarrow> Inl AttributeError | Some m \<Rightarrow> Inr m)
      | None \<Rightarrow> (case attr of None \<Rightarrow> Inl AttributeError | Some m \<Rightarrow> Inr m))"

text \<open>The part \<^verbatim>\<open>run\<close> and \<^verbatim>\<open>run_with_wandb_logging\<close> share, after the
  environment is loaded.\<close>

definition run_experiment ::
  "'env bsuite_api \<Rightarrow> FLAGS \<Rightarrow> 'env \<Rightarrow> 'env driver_event list \<times> (error + unit)" where
  "run_experiment api flags env =
     (case num_episodes_or (num_episodes flags) (bsuite_num_episodes api env) of
        Inl e \<Rightarrow> ([LoadedEnvironment env, BuiltAgent env], Inl e)
      | Inr n \<Rightarrow>
          ([LoadedEnvironment env, BuiltAgent env, ExperimentRun env n (verbose flags)],
           Inr ()))"

text \<open>\<^verbatim>\<open>run\<close>: the events, and the identifier returned or the error raised.\<close>

definition run ::
  "'env bsuite_api \<Rightarrow> FLAGS \<Rightarrow> string \<Rightarrow> 'env driver_event list \<times> (error + string)" where
  "run api flags bid =
     (case load_and_record api bid (save_path flags) (logging_mode flags) (overwrite flags) of
        Inl e \<Rightarrow> ([], Inl e)
      | Inr env \<Rightarrow>
          (let (events, r) = run_experiment api flags env
           in (events, case r of Inl e \<Rightarrow> Inl e | Inr _ \<Rightarrow> Inr bid)))"

text \<open>\<^verbatim>\<open>run_with_wandb_logging\<close>\<close>

definition run_with_wandb_logging ::
  "'env bsuite_api \<Rightarrow> FLAGS \<Rightarrow> string \<Rightarrow> 'env driver_event list \<times> (error + unit)" where
  "run_with_wandb_logging api flags bid =
     (let cfg = [(''bsuite_id'', StrVal bid),
                 (''num_episodes'', (case num_episodes flags of None \<Rightarrow> NoneVal | Some n \<Rightarrow> IntVal n)),
                 (''policy_algo'', StrVal ''actor_critic'')]
      in case load_and_record_to_wandb api bid (max_episode_length flags) (project_name flags)
                (project_entity flags) (project_group flags) cfg (project_tags flags)
                (overwrite flags) of
           Inl e \<Rightarrow> ([], Inl e)
         | Inr env \<Rightarrow> run_experiment api flags env)"

text \<open>\<^verbatim>\<open>main\<close>: the flags after the call (the sweep branch clears
  \<^verbatim>\<open>FLAGS.verbose\<close>), the events, and the error raised, if any.\<close>

definition main ::
  "sweep_module \<Rightarrow> 'env bsuite_api \<Rightarrow> FLAGS
     \<Rightarrow> FLAGS \<times> 'env driver_event list \<times> (error + unit)" where
  "main sweep api flags =
     (let bid = bsuite_id flags in
      if bid \<in> set (SWEEP sweep) then
        (if logging_mode flags = ''wandb'' then
           (let (events, r) = run_with_wandb_logging api flags bid
            in (flags, PrintSingle bid # events, r))
         else
           (let (events, r) = run api flags bid
            in (flags, PrintSingle bid # events, case r of Inl e \<Rightarrow> Inl e | Inr _ \<Rightarrow> Inr ())))
      else if hasattr_sweep sweep bid then
        (case getattr_sweep sweep bid of
           Some bsuite_sweep \<Rightarrow>
             (flags\<lparr>verbose := False\<rparr>, [PrintSweep bsuite_sweep, MapMpi bsuite_sweep],
              map_mpi api bsuite_sweep)
         | None \<Rightarrow> (flags, [], Inl AttributeError))
      else (flags, [], Inl (ValueError (''Invalid flag: bsuite_id='' @ bid @ ''.''))))"

text \<open>Whether a run of the driver has loaded an environment or built an agent.\<close>

definition constructed :: "'env driver_event list \<Rightarrow> bool" where
  "constructed events =
     (\<exists>e \<in> set events. case e of LoadedEnvironment _ \<Rightarrow> True | BuiltAgent _ \<Rightarrow> True | _ \<Rightarrow> False)"

text \<open>The values of the flags as \<^verbatim>\<open>run.py\<close> declares their defaults.\<close>

definition default_FLAGS :: FLAGS where
  "default_FLAGS =
     \<lparr>bsuite_id = ''catch/0'',
      save_path = ''/tmp/bsuite'',
      logging_mode = ''wandb'',
      overwrite = False,
      num_episodes = None,
      verbose = True,
      max_episode_length = 1000,
      project_name = ''rl-with-ts-obs'',
      project_entity = ''bolling-adrien'',
      project_group = ''ts-bsuite'',
      project_tags = None\<rparr>"

section \<open>Example objects\<close>

text \<open>
  Small concrete collaborators, on which the theorems below are instantiated. The
  example TD function returns the discounts it is given, so that the loss shows them;
  the example gradient counts the steps of the trajectory; the example pool succeeds
  on a tuple of registered identifiers and fails on every other value.
\<close>

definition example_lib :: "(nat, nat, nat, nat) libs" where
  "example_lib =
     \<lparr>hk_init = (\<lambda>key obs. key),
      hk_apply = (\<lambda>ps obs. (map (\<lambda>ob. [0, real ps]) obs, map (\<lambda>ob. real ps) obs)),
      optimizer_init = (\<lambda>ps. 0),
      optimizer_update = (\<lambda>g s. (g, s + 1)),
      optax_apply_updates = (\<lambda>ps u. ps + u),
      jax_grad = (\<lambda>f ps tr. length (actions tr)),
      rlax_td_lambda = (\<lambda>v_tm1 r_t discount_t v_t l. discount_t),
      rlax_policy_gradient_loss = (\<lambda>logits_t a_t adv_t w_t. sum_list w_t),
      jax_random_categorical = (\<lambda>key logits. map (\<lambda>row. int (key mod length row)) logits),
      rng_next = (\<lambda>r. (r, r + 1))\<rparr>"

definition example_agent :: "(nat, nat, nat) ActorCritic" where
  "example_agent = ActorCritic_init example_lib [1] 0 2 (99 / 100) (9 / 10)"

definition example_step :: "StepType \<Rightarrow> real \<Rightarrow> real \<Rightarrow> TimeStep" where
  "example_step st r x =
     \<lparr>step_type = st, reward = r, discount = 1, observation = \<lparr>shape = [1], contents = [x]\<rparr>\<rparr>"

definition example_trajectory :: Trajectory where
  "example_trajectory =
     \<lparr>observations = [zeros [1], zeros [1], zeros [1]],
      actions = [0, 1],
      rewards = [1, 0],
      discounts = [1, 1]\<rparr>"

definition example_sweep :: sweep_module where
  "example_sweep =
     \<lparr>SWEEP = [''catch/0'', ''catch/1''],
      SEPARATOR = ''/'',
      attributes = [''CATCH'' \<mapsto> TupleVal [''catch/0'', ''catch/1'']]\<rparr>"

definition example_api :: "nat bsuite_api" where
  "example_api =
     \<lparr>load_and_record =
        (\<lambda>bid path mode ow. if bid \<in> set (SWEEP example_sweep) then Inr 7 else Inl ExternalError),
      load_and_record_to_wandb =
        (\<lambda>bid len pn pe pg cfg tg ow.
           if bid \<in> set (SWEEP example_sweep) then Inr 7 else Inl ExternalError),
      bsuite_num_episodes = (\<lambda>env. Some 10000),
      map_mpi =
        (\<lambda>v. case v of
               TupleVal ids \<Rightarrow> if set ids \<subseteq> set (SWEEP example_sweep) then Inr ()
                               else Inl ExternalError
             | _ \<Rightarrow> Inl ExternalError)\<rparr>"

section \<open>The buffer keeps its shape\<close>

lemma Buffer_init_ok: "Buffer_ok (Buffer_init shp n)"
  by (simp add: Buffer_ok_def Buffer_init_def)

lemma Buffer_append_ok:
  "Buffer_ok b \<Longrightarrow> Buffer_append b ts a nts = Inr b' \<Longrightarrow> Buffer_ok b' \<and> cursor b' = cursor b + 1 \<and> capacity b' = capacity b"
  by (auto simp: Buffer_ok_def Buffer_append_def Buffer_full_def Let_def split: if_splits)

lemma Buffer_drain_ok:
  "Buffer_ok b \<Longrightarrow> Buffer_ok (snd (Buffer_drain b)) \<and> capacity (snd (Buffer_drain b)) = capacity b"
  by (simp add: Buffer_ok_def Buffer_drain_def Let_def)

text \<open>
  C8. For every buffer with cursor \<open>c\<close>, \<^verbatim>\<open>drain\<close> returns a trajectory with
  \<open>c + 1\<close> observations and \<open>c\<close> actions, rewards and discounts, resets the cursor to
  zero, and leaves the most recent observation (the last one of the trajectory) as the
  first observation of the next segment. Nothing is assumed about fullness: the
  drained trajectory has \<open>capacity\<close> steps exactly when the buffer was full.
\<close>

theorem drain_trajectory:
  assumes "Buffer_ok b"
  shows "length (observations (fst (Buffer_drain b))) = cursor b + 1
       \<and> length (actions (fst (Buffer_drain b))) = cursor b
       \<and> length (rewards (fst (Buffer_drain b))) = cursor b
       \<and> length (discounts (fst (Buffer_drain b))) = cursor b
       \<and> cursor (snd (Buffer_drain b)) = 0
       \<and> obs_arr (snd (Buffer_drain b)) ! 0 = last (observations (fst (Buffer_drain b)))
       \<and> obs_arr (snd (Buffer_drain b)) ! 0 = obs_arr b ! cursor b
       \<and> Buffer_full b = (length (actions (fst (Buffer_drain b))) = capacity b)"
proof -
  from assms have c: "cursor b < length (obs_arr b)" and l: "cursor b \<le> capacity b"
    and la: "length (act_arr b) = capacity b" and lr: "length (rew_arr b) = capacity b"
    and ld: "length (disc_arr b) = capacity b"
    by (simp_all add: Buffer_ok_def)
  have "take (Suc (cursor b)) (obs_arr b) = take (cursor b) (obs_arr b) @ [obs_arr b ! cursor b]"
    using c by (rule take_Suc_conv_app_nth)
  then have lst: "last (take (cursor b + 1) (obs_arr b)) = obs_arr b ! cursor b"
    by simp
  have z: "0 < length (obs_arr b)" using c by (cases "obs_arr b") simp_all
  show ?thesis
    using c l la lr ld lst z
    by (auto simp add: Buffer_drain_def Let_def Buffer_full_def min_def)
qed

theorem drain_trajectory_witness:
  "Buffer_ok ((Buffer_init [1] 3)\<lparr>cursor := 2\<rparr>)
   \<and> length (observations (fst (Buffer_drain ((Buffer_init [1] 3)\<lparr>cursor := 2\<rparr>)))) = 3
   \<and> length (actions (fst (Buffer_drain ((Buffer_init [1] 3)\<lparr>cursor := 2\<rparr>)))) = 2
   \<and> cursor (snd (Buffer_drain ((Buffer_init [1] 3)\<lparr>cursor := 2\<rparr>))) = 0
   \<and> \<not> Buffer_full ((Buffer_init [1] 3)\<lparr>cursor := 2\<rparr>)"
proof -
  have ok: "Buffer_ok ((Buffer_init [1] 3)\<lparr>cursor := 2\<rparr>)"
    by (simp add: Buffer_ok_def Buffer_init_def)
  have nf: "\<not> Buffer_full ((Buffer_init [1] 3)\<lparr>cursor := 2\<rparr>)"
    by (simp add: Buffer_full_def Buffer_init_def)
  from drain_trajectory [OF ok] ok nf show ?thesis by simp
qed

section \<open>The update of the agent\<close>

text \<open>
  The buffer of an agent built with a sequence length of at least one is well formed
  and not full, and every \<^verbatim>\<open>update\<close> that returns leaves it so: between calls the
  buffer is never full.
\<close>

lemma ActorCritic_init_buffer:
  "buffer (ActorCritic_init lib shp r n g l) = Buffer_init shp n"
  by (simp add: ActorCritic_init_def Let_def case_prod_beta)

lemma ActorCritic_init_ready:
  "0 < n \<Longrightarrow> Buffer_ok (buffer (ActorCritic_init lib shp r n g l))
     \<and> \<not> Buffer_full (buffer (ActorCritic_init lib shp r n g l))"
  by (simp add: ActorCritic_init_buffer Buffer_init_ok) (simp add: Buffer_full_def Buffer_init_def)

lemma update_keeps_ready:
  assumes ok: "Buffer_ok (buffer self)" and pos: "0 < capacity (buffer self)"
    and u: "update self ts a nts = Inr self'"
  shows "Buffer_ok (buffer self') \<and> \<not> Buffer_full (buffer self')
       \<and> capacity (buffer self') = capacity (buffer self)"
proof -
  from u obtain b where app: "Buffer_append (buffer self) ts a nts = Inr b"
    by (auto simp: update_def split: sum.splits)
  from Buffer_append_ok [OF ok app] have okb: "Buffer_ok b" and cap: "capacity b = capacity (buffer self)"
    by simp_all
  show ?thesis
  proof (cases "Buffer_full b \<or> last_step nts")
    case True
    with u app have "buffer self' = snd (Buffer_drain b)"
      by (auto simp: update_def Let_def case_prod_beta)
    with Buffer_drain_ok [OF okb] cap pos show ?thesis
      by (simp add: Buffer_full_def Buffer_drain_def Let_def)
  next
    case False
    with u app have "buffer self' = b"
      by (auto simp: update_def Let_def)
    with okb cap False show ?thesis by simp
  qed
qed

lemma example_agent_buffer:
  "buffer example_agent = Buffer_init [1] 2"
  by (simp add: example_agent_def ActorCritic_init_def Let_def case_prod_beta)

text \<open>
  C1. A call of \<^verbatim>\<open>update\<close> appends the transition to the buffer; when the
  buffer is full after the append or the new timestep is the last of its episode, the
  buffer is drained and one SGD step on the drained trajectory replaces the training
  state (one learning step); on every other call there is no learning step and the
  training state is as before. The call returns unless the buffer is full already, in
  which case the append raises and the agent is untouched.
\<close>

theorem update_learning_step:
  assumes ok: "Buffer_ok (buffer self)"
  shows "if Buffer_full (buffer self) then update self ts a nts = Inl BufferFull
     else (\<exists>b self'. Buffer_append (buffer self) ts a nts = Inr b
      \<and> update self ts a nts = Inr self'
      \<and> cursor b = cursor (buffer self) + 1
      \<and> obs_arr b ! (cursor (buffer self) + 1) = observation nts
      \<and> act_arr b ! cursor (buffer self) = a
      \<and> rew_arr b ! cursor (buffer self) = reward nts
      \<and> disc_arr b ! cursor (buffer self) = discount nts
      \<and> (if Buffer_full b \<or> last_step nts
          then state self' = sgd_step_fn self (state self) (fst (Buffer_drain b))
             \<and> buffer self' = snd (Buffer_drain b)
             \<and> calls self' = calls self @ [BufferAppend, BufferDrain, SgdStep]
             \<and> learning_steps (calls self') = learning_steps (calls self) + 1
          else state self' = state self
             \<and> buffer self' = b
             \<and> calls self' = calls self @ [BufferAppend]
             \<and> learning_steps (calls self') = learning_steps (calls self)))"
proof (cases "Buffer_full (buffer self)")
  case True
  then show ?thesis
    by (simp add: update_def Buffer_append_def)
next
  case nf: False
  define t where "t = cursor (buffer self)"
  define b where "b = (buffer self)\<lparr>obs_arr := (obs_arr (buffer self))[t := observation ts,
                                       t + 1 := observation nts],
                 act_arr := (act_arr (buffer self))[t := a],
                 rew_arr := (rew_arr (buffer self))[t := reward nts],
                 disc_arr := (disc_arr (buffer self))[t := discount nts],
                 cursor := t + 1\<rparr>"
  have app: "Buffer_append (buffer self) ts a nts = Inr b"
    using nf by (simp add: Buffer_append_def b_def t_def Let_def)
  from ok nf have lt: "t < capacity (buffer self)"
    by (simp add: Buffer_ok_def Buffer_full_def t_def)
  with ok have lens: "t < length (act_arr (buffer self))" "t < length (rew_arr (buffer self))"
    "t < length (disc_arr (buffer self))" "t + 1 < length (obs_arr (buffer self))"
    by (simp_all add: Buffer_ok_def)
  have rec: "cursor b = t + 1"
    "obs_arr b ! (t + 1) = observation nts" "act_arr b ! t = a"
    "rew_arr b ! t = reward nts" "disc_arr b ! t = discount nts"
    using lens by (simp_all add: b_def)
  show ?thesis
  proof (cases "Buffer_full b \<or> last_step nts")
    case True
    then show ?thesis
      using app rec nf
      by (simp add: update_def Let_def t_def [symmetric] learning_steps_def split: prod.split)
  next
    case False
    then show ?thesis
      using app rec nf
      by (simp add: update_def Let_def t_def [symmetric] learning_steps_def)
  qed
qed

theorem update_learning_step_witness:
  "Buffer_ok (buffer example_agent) \<and> \<not> Buffer_full (buffer example_agent)
   \<and> (\<exists>self'. update example_agent (example_step FIRST 0 0) 1 (example_step LAST 1 5) = Inr self'
         \<and> learning_steps (calls self') = learning_steps (calls example_agent) + 1
         \<and> state self' = sgd_step_fn example_agent (state example_agent)
              \<lparr>observations = [\<lparr>shape = [1], contents = [0]\<rparr>, \<lparr>shape = [1], contents = [5]\<rparr>],
               actions = [1], rewards = [1], discounts = [1]\<rparr>)
   \<and> (\<exists>self'. update example_agent (example_step FIRST 0 0) 1 (example_step MID 1 5) = Inr self'
         \<and> learning_steps (calls self') = learning_steps (calls example_agent)
         \<and> state self' = state example_agent
         \<and> cursor (buffer self') = 1)"
proof -
  have ok: "Buffer_ok (buffer example_agent)"
    by (simp add: example_agent_buffer Buffer_init_ok)
  have nf: "\<not> Buffer_full (buffer example_agent)"
    by (simp add: example_agent_buffer Buffer_full_def Buffer_init_def)
  have b: "Buffer_append (buffer example_agent) (example_step FIRST 0 0) 1 (example_step st 1 5)
      = Inr \<lparr>capacity = 2, cursor = 1,
             obs_arr = [\<lparr>shape = [1], contents = [0]\<rparr>, \<lparr>shape = [1], contents = [5]\<rparr>, zeros [1]],
             act_arr = [1, 0], rew_arr = [1, 0], disc_arr = [1, 0]\<rparr>" for st
    by (simp add: example_agent_buffer Buffer_append_def Buffer_full_def Buffer_init_def
        example_step_def Let_def zeros_def numeral_2_eq_2 numeral_3_eq_3)
  have l: "last_step (example_step LAST 1 5)" and m: "\<not> last_step (example_step MID 1 5)"
    by (simp_all add: last_step_def example_step_def)
  from update_learning_step [OF ok, of "example_step FIRST 0 0" 1 "example_step LAST 1 5"] l nf
  have one: "\<exists>self'. update example_agent (example_step FIRST 0 0) 1 (example_step LAST 1 5) = Inr self'
         \<and> learning_steps (calls self') = learning_steps (calls example_agent) + 1
         \<and> state self' = sgd_step_fn example_agent (state example_agent)
              \<lparr>observations = [\<lparr>shape = [1], contents = [0]\<rparr>, \<lparr>shape = [1], contents = [5]\<rparr>],
               actions = [1], rewards = [1], discounts = [1]\<rparr>"
    by (auto simp add: b Buffer_drain_def Let_def)
  from update_learning_step [OF ok, of "example_step FIRST 0 0" 1 "example_step MID 1 5"] m nf
  have none: "\<exists>self'. update example_agent (example_step FIRST 0 0) 1 (example_step MID 1 5) = Inr self'
         \<and> learning_steps (calls self') = learning_steps (calls example_agent)
         \<and> state self' = state example_agent
         \<and> cursor (buffer self') = 1"
    by (auto simp add: b Buffer_full_def)
  from ok nf one none show ?thesis by blast
qed

section \<open>Action selection\<close>

text \<open>
  C5. \<^verbatim>\<open>select_action\<close> leaves the training state, the buffer and the two
  closures of the agent as they were, and advances the random sequence by one draw.
  When the sampler draws one index per row of logits and the network returns one row
  of logits per observation of the batch, the value returned is the index drawn for
  the single observation.
\<close>

theorem select_action_frame:
  "state (snd (select_action lib self ts)) = state self
   \<and> buffer (snd (select_action lib self ts)) = buffer self
   \<and> forward (snd (select_action lib self ts)) = forward self
   \<and> sgd_step_fn (snd (select_action lib self ts)) = sgd_step_fn self
   \<and> rng (snd (select_action lib self ts)) = snd (rng_next lib (rng self))
   \<and> calls (snd (select_action lib self ts)) = calls self @ [RngNext, Forward, Categorical]
   \<and> ((\<forall>k ls. length (jax_random_categorical lib k ls) = length ls)
        \<and> (\<forall>p obs. length (fst (forward self p obs)) = length obs)
      \<longrightarrow> (\<exists>a. fst (select_action lib self ts) = Inr a
             \<and> jax_random_categorical lib (fst (rng_next lib (rng self)))
                 (fst (forward self (params (state self)) [observation ts])) = [a]))"
proof -
  obtain key rng1 where r: "rng_next lib (rng self) = (key, rng1)"
    by (cases "rng_next lib (rng self)")
  obtain logits vs where f: "forward self (params (state self)) [observation ts] = (logits, vs)"
    by (cases "forward self (params (state self)) [observation ts]")
  have frame: "snd (select_action lib self ts)
      = self\<lparr>rng := rng1, calls := calls self @ [RngNext, Forward, Categorical]\<rparr>"
    by (simp add: select_action_def r f Let_def split: list.split)
  have ret: "\<exists>a. fst (select_action lib self ts) = Inr a \<and> jax_random_categorical lib key logits = [a]"
    if c: "\<forall>k ls. length (jax_random_categorical lib k ls) = length ls"
      and w: "\<forall>p obs. length (fst (forward self p obs)) = length obs"
  proof -
    from w f have "length logits = 1"
      by (metis fst_conv length_Cons list.size(3) One_nat_def)
    with c have "length (jax_random_categorical lib key logits) = 1" by simp
    then obtain a where a: "jax_random_categorical lib key logits = [a]"
      by (cases "jax_random_categorical lib key logits") auto
    then show ?thesis
      by (simp add: select_action_def r f Let_def)
  qed
  show ?thesis
    using frame ret by (simp add: r f)
qed

theorem select_action_frame_witness:
  "(\<forall>k ls. length (jax_random_categorical example_lib k ls) = length ls)
   \<and> (\<forall>p obs. length (fst (forward example_agent p obs)) = length obs)
   \<and> fst (select_action example_lib example_agent (example_step FIRST 0 0)) = Inr 1
   \<and> state (snd (select_action example_lib example_agent (example_step FIRST 0 0))) = state example_agent
   \<and> buffer (snd (select_action example_lib example_agent (example_step FIRST 0 0))) = buffer example_agent
   \<and> rng (snd (select_action example_lib example_agent (example_step FIRST 0 0))) = 2"
proof -
  have c: "\<forall>k ls. length (jax_random_categorical example_lib k ls) = length ls"
    by (simp add: example_lib_def)
  have f: "\<forall>p obs. length (fst (forward example_agent p obs)) = length obs"
    by (simp add: example_agent_def ActorCritic_init_def example_lib_def Let_def)
  have r: "rng example_agent = 1"
    by (simp add: example_agent_def ActorCritic_init_def example_lib_def Let_def)
  have n: "rng_next example_lib 1 = (1, 2)"
    by (simp add: example_lib_def)
  have s: "jax_random_categorical example_lib 1
             (fst (forward example_agent (params (state example_agent))
                [observation (example_step FIRST 0 0)])) = [1]"
    by (simp add: example_agent_def ActorCritic_init_def example_lib_def Let_def)
  from select_action_frame [of example_lib example_agent "example_step FIRST 0 0"] c f r n s
  show ?thesis by auto
qed

lemma select_action_same:
  assumes "rng self1 = rng self2" "params (state self1) = params (state self2)"
    "forward self1 = forward self2" "observation ts1 = observation ts2"
  shows "fst (select_action lib self1 ts1) = fst (select_action lib self2 ts2)
       \<and> rng (snd (select_action lib self1 ts1)) = rng (snd (select_action lib self2 ts2))"
  using assms by (simp add: select_action_def Let_def split: prod.split list.split)

lemma select_action_keeps:
  "state (snd (select_action lib self ts)) = state self
   \<and> forward (snd (select_action lib self ts)) = forward self"
  by (simp add: select_action_def Let_def split: prod.split list.split)

text \<open>
  C6. Two runs of \<^verbatim>\<open>select_action\<close> calls that start from the same state of the
  random sequence, with the same parameters and network and on the same observations,
  return the same actions, whatever else differs (the buffers, the optimizer states,
  the rewards and discounts of the timesteps).
\<close>

theorem select_actions_deterministic:
  assumes "rng self1 = rng self2" and "params (state self1) = params (state self2)"
    and "forward self1 = forward self2" and "map observation tss1 = map observation tss2"
  shows "fst (select_actions lib self1 tss1) = fst (select_actions lib self2 tss2)"
  using assms
proof (induction tss1 arbitrary: self1 self2 tss2)
  case Nil
  then show ?case by simp
next
  case (Cons ts1 rest1)
  then obtain ts2 rest2 where t2: "tss2 = ts2 # rest2" and o: "observation ts1 = observation ts2"
    and m: "map observation rest1 = map observation rest2"
    by (cases tss2) auto
  let ?a1 = "snd (select_action lib self1 ts1)" and ?a2 = "snd (select_action lib self2 ts2)"
  have same: "fst (select_action lib self1 ts1) = fst (select_action lib self2 ts2)"
    and r: "rng ?a1 = rng ?a2"
    using select_action_same [OF Cons.prems(1) Cons.prems(2) Cons.prems(3) o, where lib = lib] by simp_all
  have p: "params (state ?a1) = params (state ?a2)" and f: "forward ?a1 = forward ?a2"
    using Cons.prems(2,3) by (simp_all add: select_action_keeps)
  have "fst (select_actions lib ?a1 rest1) = fst (select_actions lib ?a2 rest2)"
    by (rule Cons.IH [OF r p f m])
  with same show ?case
    by (simp add: t2 case_prod_beta)
qed

theorem select_actions_deterministic_witness:
  "rng example_agent = rng (example_agent\<lparr>buffer := Buffer_init [1] 7, calls := []\<rparr>)
   \<and> params (state example_agent)
       = params (state (example_agent\<lparr>buffer := Buffer_init [1] 7, calls := []\<rparr>))
   \<and> forward example_agent = forward (example_agent\<lparr>buffer := Buffer_init [1] 7, calls := []\<rparr>)
   \<and> map observation [example_step FIRST 0 0, example_step MID 1 5]
       = map observation [example_step FIRST 0 0, example_step LAST 9 5]
   \<and> fst (select_actions example_lib example_agent [example_step FIRST 0 0, example_step MID 1 5])
       = fst (select_actions example_lib (example_agent\<lparr>buffer := Buffer_init [1] 7, calls := []\<rparr>)
               [example_step FIRST 0 0, example_step LAST 9 5])
   \<and> example_step MID 1 5 \<noteq> example_step LAST 9 5
   \<and> buffer example_agent \<noteq> Buffer_init [1] 7"
proof -
  have o: "map observation [example_step FIRST 0 0, example_step MID 1 5]
       = map observation [example_step FIRST 0 0, example_step LAST 9 5]"
    by (simp add: example_step_def)
  have d: "example_step MID 1 5 \<noteq> example_step LAST 9 5"
    by (simp add: example_step_def)
  have b: "buffer example_agent \<noteq> Buffer_init [1] 7"
    by (simp add: example_agent_buffer Buffer_init_def)
  from select_actions_deterministic [of example_agent
      "example_agent\<lparr>buffer := Buffer_init [1] 7, calls := []\<rparr>"
      "[example_step FIRST 0 0, example_step MID 1 5]"
      "[example_step FIRST 0 0, example_step LAST 9 5]" example_lib] o d b
  show ?thesis by simp
qed

section \<open>Construction of the agent\<close>

text \<open>
  C7. The constructor draws one key from the random sequence, initialises the network
  parameters once, on that key and on a batch of one all-zero observation of the
  environment's observation shape, and initialises the optimizer state from those
  parameters; the pair is the initial training state. It is a function of the random
  sequence, the network, the optimizer and the observation shape alone: the sequence
  length, the discount and lambda do not enter it.
\<close>

theorem ActorCritic_init_state:
  "state (ActorCritic_init lib shp r n g l) =
     \<lparr>params = hk_init lib (fst (rng_next lib r)) [zeros shp],
      opt_state = optimizer_init lib (hk_init lib (fst (rng_next lib r)) [zeros shp])\<rparr>
   \<and> length [zeros shp] = 1
   \<and> shape (zeros shp) = shp
   \<and> contents (zeros shp) = replicate (prod_list shp) 0
   \<and> rng (ActorCritic_init lib shp r n g l) = snd (rng_next lib r)
   \<and> calls (ActorCritic_init lib shp r n g l) = [RngNext, NetInit, OptInit]
   \<and> length (filter (\<lambda>c. c = NetInit) (calls (ActorCritic_init lib shp r n g l))) = 1
   \<and> state (ActorCritic_init lib shp r n g l) = state (ActorCritic_init lib shp r n' g' l')"
  by (simp add: ActorCritic_init_def Let_def case_prod_beta zeros_def)

section \<open>The loss\<close>

text \<open>
  C2. The discounts given to the TD(lambda) computation are the discounts of the
  trajectory, each multiplied by the agent's discount factor; with discounts all \<open>1\<close>
  and factor \<open>0.99\<close> they are \<open>0.99\<close> at every step.
\<close>

theorem loss_discount_composition:
  "loss lib g lam ps tr =
     (let vals = snd (hk_apply lib ps (observations tr));
          logits = fst (hk_apply lib ps (observations tr));
          td_errors = rlax_td_lambda lib (butlast vals) (rewards tr)
                        (map (\<lambda>d. d * g) (discounts tr)) (tl vals) lam
      in map_option
           (\<lambda>c. rlax_policy_gradient_loss lib (butlast logits) (actions tr) td_errors
                   (replicate (length td_errors) 1) + c)
           (jnp_mean (map (\<lambda>e. e ^ 2) td_errors)))
   \<and> loss lib (99 / 100) lam ps (tr\<lparr>discounts := replicate n 1\<rparr>) =
     (let vals = snd (hk_apply lib ps (observations tr));
          logits = fst (hk_apply lib ps (observations tr));
          td_errors = rlax_td_lambda lib (butlast vals) (rewards tr)
                        (replicate n (99 / 100)) (tl vals) lam
      in map_option
           (\<lambda>c. rlax_policy_gradient_loss lib (butlast logits) (actions tr) td_errors
                   (replicate (length td_errors) 1) + c)
           (jnp_mean (map (\<lambda>e. e ^ 2) td_errors)))"
  by (simp add: loss_def Let_def case_prod_beta)

theorem loss_discount_composition_witness:
  "loss example_lib (99 / 100) (9 / 10) 0 example_trajectory = Some (29801 / 10000)
   \<and> rlax_td_lambda example_lib [0, 0] (rewards example_trajectory)
        (map (\<lambda>d. d * (99 / 100)) (discounts example_trajectory)) [0, 0] (9 / 10)
      = [99 / 100, 99 / 100]"
  using loss_discount_composition [of example_lib "99 / 100" "9 / 10" 0 example_trajectory]
  by (simp add: example_lib_def example_trajectory_def jnp_mean_def power2_eq_square)

text \<open>
  C3. The loss is the sum of the actor loss and the critic loss, with no coefficient:
  the critic loss is the mean of the squared TD errors, the actor loss is the
  policy-gradient loss of the logits at all timesteps but the last, the actions of the
  trajectory, the TD errors as advantages and the weight \<open>1\<close> at every step. When
  there is no TD error the mean, and with it the loss, is NaN.
\<close>

theorem loss_is_actor_plus_critic:
  "loss lib g lam ps tr =
     (let logits = fst (hk_apply lib ps (observations tr));
          vals = snd (hk_apply lib ps (observations tr));
          td_errors = rlax_td_lambda lib (butlast vals) (rewards tr)
                        (map (\<lambda>d. d * g) (discounts tr)) (tl vals) lam;
          critic_loss = (\<Sum>e\<leftarrow>td_errors. e * e) / real (length td_errors);
          actor_loss = rlax_policy_gradient_loss lib (take (length logits - 1) logits)
                         (actions tr) td_errors (map (\<lambda>e. 1) td_errors)
      in if td_errors = [] then None else Some (actor_loss + critic_loss))"
  by (simp add: loss_def Let_def case_prod_beta jnp_mean_def butlast_conv_take power2_eq_square map_replicate_const)

theorem loss_is_actor_plus_critic_witness:
  "loss example_lib 1 (9 / 10) 0 example_trajectory = Some (2 + (1 * 1 + 1 * 1) / 2)
   \<and> loss example_lib 1 (9 / 10) 0 (example_trajectory\<lparr>discounts := []\<rparr>) = None"
  using loss_is_actor_plus_critic [of example_lib 1 "9 / 10" 0 example_trajectory]
    loss_is_actor_plus_critic [of example_lib 1 "9 / 10" 0 "example_trajectory\<lparr>discounts := []\<rparr>"]
  by (simp add: example_lib_def example_trajectory_def)

section \<open>The logger\<close>

text \<open>
  C4. The name \<^verbatim>\<open>WandbLogger.__init__\<close> builds from the identifier (the separator
  replaced, the prefix in front) is \<open>bsuite_id_-_catch-0\<close> for \<open>catch/0\<close>, but it is
  no argument of the call to \<^verbatim>\<open>wandb.init\<close>: the call is the same for every
  identifier and every separator. Each \<^verbatim>\<open>write\<close> forwards its data in one call.
\<close>

theorem WandbLogger_init_drops_name:
  "experiment_name example_sweep ''catch/0'' = ''bsuite_id_-_catch-0''
   \<and> WandbLogger_init example_sweep ''catch/0'' pn pe pg cfg tg ow =
       [WandbInit \<lparr>project = pn, entity = pe, group = pg, config = cfg, tags = tg, reinit = ow\<rparr>]
   \<and> WandbLogger_init example_sweep ''catch/0'' pn pe pg cfg tg ow =
       WandbLogger_init sw other pn pe pg cfg tg ow
   \<and> WandbLogger_write d = [WandbLog d]"
  by (simp add: WandbLogger_init_def WandbLogger_write_def experiment_name_def example_sweep_def
      str_replace_def SAFE_SEPARATOR_def BSUITE_PREFIX_def INITIAL_SEPARATOR_def replace_scan.simps)

section \<open>The driver\<close>

text \<open>
  The identifier \<open>SEPARATOR\<close> is no registered experiment and names no sweep, but it
  names an attribute of the sweep module: \<^verbatim>\<open>main\<close> does not raise, it clears
  \<^verbatim>\<open>FLAGS.verbose\<close> and hands the attribute's value to the pool.
\<close>

theorem main_attribute_counterexample:
  "bsuite_id (default_FLAGS\<lparr>bsuite_id := ''SEPARATOR''\<rparr>) \<notin> set (SWEEP example_sweep)
   \<and> \<not> registered_sweep example_sweep (bsuite_id (default_FLAGS\<lparr>bsuite_id := ''SEPARATOR''\<rparr>))
   \<and> fst (main example_sweep example_api (default_FLAGS\<lparr>bsuite_id := ''SEPARATOR''\<rparr>)) =
       default_FLAGS\<lparr>bsuite_id := ''SEPARATOR'', verbose := False\<rparr>
   \<and> fst (snd (main example_sweep example_api (default_FLAGS\<lparr>bsuite_id := ''SEPARATOR''\<rparr>))) =
       [PrintSweep (StrVal ''/''), MapMpi (StrVal ''/'')]
   \<and> snd (snd (main example_sweep example_api (default_FLAGS\<lparr>bsuite_id := ''SEPARATOR''\<rparr>))) =
       map_mpi example_api (StrVal ''/'')"
  by (simp add: main_def registered_sweep_def hasattr_sweep_def getattr_sweep_def
      example_sweep_def default_FLAGS_def Let_def)

text \<open>
  C9, amended. When the experiment identifier is not in \<^verbatim>\<open>sweep.SWEEP\<close> and names
  no attribute of the sweep module, \<^verbatim>\<open>main\<close> raises \<^verbatim>\<open>ValueError\<close> at once: no
  environment is loaded, no agent is built, nothing else is done and the flags are
  unchanged.
\<close>

theorem main_unknown_id:
  assumes "bsuite_id flags \<notin> set (SWEEP sweep)"
    and "\<not> hasattr_sweep sweep (bsuite_id flags)"
  shows "main sweep api flags =
           (flags, [], Inl (ValueError (''Invalid flag: bsuite_id='' @ bsuite_id flags @ ''.'')))
       \<and> \<not> constructed (fst (snd (main sweep api flags)))"
  using assms by (simp add: main_def Let_def constructed_def)

theorem main_unknown_id_witness:
  "bsuite_id (default_FLAGS\<lparr>bsuite_id := ''nope''\<rparr>) \<notin> set (SWEEP example_sweep)
   \<and> \<not> hasattr_sweep example_sweep (bsuite_id (default_FLAGS\<lparr>bsuite_id := ''nope''\<rparr>))
   \<and> main example_sweep example_api (default_FLAGS\<lparr>bsuite_id := ''nope''\<rparr>) =
       (default_FLAGS\<lparr>bsuite_id := ''nope''\<rparr>, [], Inl (ValueError ''Invalid flag: bsuite_id=nope.''))"
proof -
  have a: "bsuite_id (default_FLAGS\<lparr>bsuite_id := ''nope''\<rparr>) \<notin> set (SWEEP example_sweep)"
    by (simp add: example_sweep_def)
  have b: "\<not> hasattr_sweep example_sweep (bsuite_id (default_FLAGS\<lparr>bsuite_id := ''nope''\<rparr>))"
    by (simp add: hasattr_sweep_def getattr_sweep_def example_sweep_def)
  from main_unknown_id [OF a b, of example_api] a b show ?thesis by simp
qed

text \<open>
  C10. In \<^verbatim>\<open>run\<close> and in \<^verbatim>\<open>run_with_wandb_logging\<close>, on an environment that loads
  and has the attribute \<^verbatim>\<open>bsuite_num_episodes\<close>, the experiment is run for the
  number of episodes of the flag when the flag is neither \<^verbatim>\<open>None\<close> nor \<open>0\<close>, and for
  the environment's number of episodes otherwise: a flag of \<open>0\<close> does not run zero
  episodes.
\<close>

theorem num_episodes_override:
  assumes "bsuite_num_episodes api env = Some m"
    and "load_and_record api bid (save_path flags) (logging_mode flags) (overwrite flags) = Inr env"
    and "load_and_record_to_wandb api bid (max_episode_length flags) (project_name flags)
           (project_entity flags) (project_group flags)
           [(''bsuite_id'', StrVal bid),
            (''num_episodes'', (case num_episodes flags of None \<Rightarrow> NoneVal | Some n \<Rightarrow> IntVal n)),
            (''policy_algo'', StrVal ''actor_critic'')]
           (project_tags flags) (overwrite flags) = Inr env"
  shows "run api flags bid =
           ([LoadedEnvironment env, BuiltAgent env,
             ExperimentRun env
               (if num_episodes flags = None \<or> num_episodes flags = Some 0 then m
                else the (num_episodes flags))
               (verbose flags)],
            Inr bid)
       \<and> run_with_wandb_logging api flags bid =
           ([LoadedEnvironment env, BuiltAgent env,
             ExperimentRun env
               (if num_episodes flags = None \<or> num_episodes flags = Some 0 then m
                else the (num_episodes flags))
               (verbose flags)],
            Inr ())"
  using assms
  by (cases "num_episodes flags")
     (simp_all add: run_def run_with_wandb_logging_def run_experiment_def num_episodes_or_def Let_def)

theorem num_episodes_override_witness:
  "bsuite_num_episodes example_api 7 = Some 10000
   \<and> run example_api (default_FLAGS\<lparr>num_episodes := Some 0\<rparr>) ''catch/0'' =
       ([LoadedEnvironment 7, BuiltAgent 7, ExperimentRun 7 10000 True], Inr ''catch/0'')
   \<and> run_with_wandb_logging example_api (default_FLAGS\<lparr>num_episodes := Some 0\<rparr>) ''catch/0'' =
       ([LoadedEnvironment 7, BuiltAgent 7, ExperimentRun 7 10000 True], Inr ())"
proof -
  have a: "bsuite_num_episodes example_api 7 = Some 10000"
    by (simp add: example_api_def)
  have b: "load_and_record example_api ''catch/0'' (save_path (default_FLAGS\<lparr>num_episodes := Some 0\<rparr>))
             (logging_mode (default_FLAGS\<lparr>num_episodes := Some 0\<rparr>))
             (overwrite (default_FLAGS\<lparr>num_episodes := Some 0\<rparr>)) = Inr 7"
    by (simp add: example_api_def example_sweep_def)
  have c: "load_and_record_to_wandb example_api ''catch/0''
           (max_episode_length (default_FLAGS\<lparr>num_episodes := Some 0\<rparr>))
           (project_name (default_FLAGS\<lparr>num_episodes := Some 0\<rparr>))
           (project_entity (default_FLAGS\<lparr>num_episodes := Some 0\<rparr>))
           (project_group (default_FLAGS\<lparr>num_episodes := Some 0\<rparr>))
           [(''bsuite_id'', StrVal ''catch/0''),
            (''num_episodes'', (case num_episodes (default_FLAGS\<lparr>num_episodes := Some 0\<rparr>) of
                                  None \<Rightarrow> NoneVal | Some n \<Rightarrow> IntVal n)),
            (''policy_algo'', StrVal ''actor_critic'')]
           (project_tags (default_FLAGS\<lparr>num_episodes := Some 0\<rparr>))
           (overwrite (default_FLAGS\<lparr>num_episodes := Some 0\<rparr>)) = Inr 7"
    by (simp add: example_api_def example_sweep_def)
  from num_episodes_override [OF a b c] a show ?thesis
    by (simp add: default_FLAGS_def)
qed

end
